theory Spec2Isabelle
  imports Complex_Main "HOL-Library.Char_ord" "HOL-Library.List_Lexorder"
begin

section \<open>Numbers, strings and the normalization function\<close>

text \<open>
  The ledger of \<^verbatim>\<open>app.py\<close> computes with Python floats. They are idealised here as
  \<^typ>\<open>real\<close>: sums and products are exact, and NaN, the infinities and binary rounding
  are outside the model. A numeric argument that may be missing (\<^verbatim>\<open>None\<close>) is a
  \<^typ>\<open>real option\<close>. Python strings are \<^typ>\<open>string\<close>, holding the UTF-8 bytes of the
  text, so that equality of strings is equality of byte lists.
\<close>

text \<open>The direction tags of the source: \<^verbatim>\<open>"\<close>shou-ru\<^verbatim>\<open>"\<close> (income) and
  \<^verbatim>\<open>"\<close>zhi-chu\<^verbatim>\<open>"\<close> (expense), as UTF-8.\<close>

definition income :: string where
  "income = [CHR 0xE6, CHR 0x94, CHR 0xB6, CHR 0xE5, CHR 0x85, CHR 0xA5]"

definition expense :: string where
  "expense = [CHR 0xE6, CHR 0x94, CHR 0xAF, CHR 0xE5, CHR 0x87, CHR 0xBA]"

text \<open>Python's \<^verbatim>\<open>x or d\<close> on a number that may be \<^verbatim>\<open>None\<close>: \<^verbatim>\<open>None\<close> and zero are
  falsy and give \<^verbatim>\<open>d\<close>; every other number, negative ones too, is kept.\<close>

definition py_or :: "real option \<Rightarrow> real \<Rightarrow> real" where
  "py_or x d = (case x of None \<Rightarrow> d | Some v \<Rightarrow> if v = 0 then d else v)"

text \<open>
  \<^verbatim>\<open>
  def compute_net_cny(direction, amount, fee, rate_to_cny):
      amount_cny = (amount or 0.0) * (rate_to_cny or 1.0)
      fee_cny = (fee or 0.0) * (rate_to_cny or 1.0)
      if direction == "shou-ru":
          return amount_cny - fee_cny
      else:
          return -amount_cny - fee_cny
  \<close>
\<close>

definition compute_net_cny :: "string \<Rightarrow> real option \<Rightarrow> real option \<Rightarrow> real option \<Rightarrow> real" where
  "compute_net_cny direction amount fee rate_to_cny =
     (let amount_cny = py_or amount 0 * py_or rate_to_cny 1;
          fee_cny = py_or fee 0 * py_or rate_to_cny 1
      in if direction = income then amount_cny - fee_cny
         else - amount_cny - fee_cny)"

text \<open>
  The same function with the failures of Python's operators written out, to state that
  it never raises. A value is \<^verbatim>\<open>None\<close> or a float; \<^verbatim>\<open>*\<close>, binary \<^verbatim>\<open>-\<close> and unary \<^verbatim>\<open>-\<close> raise
  \<^verbatim>\<open>TypeError\<close> on \<^verbatim>\<open>None\<close>, and \<^verbatim>\<open>x or d\<close> is \<^verbatim>\<open>x\<close> when \<^verbatim>\<open>x\<close> is truthy and \<^verbatim>\<open>d\<close> otherwise.
\<close>

datatype error = ValueError | TypeError

datatype pyval = PyNone | PyFloat real

fun truthy :: "pyval \<Rightarrow> bool" where
  "truthy PyNone = False"
| "truthy (PyFloat v) = (v \<noteq> 0)"

definition or_val :: "pyval \<Rightarrow> pyval \<Rightarrow> pyval" where
  "or_val x d = (if truthy x then x else d)"

fun mul_val :: "pyval \<Rightarrow> pyval \<Rightarrow> error + pyval" where
  "mul_val (PyFloat a) (PyFloat b) = Inr (PyFloat (a * b))"
| "mul_val _ _ = Inl TypeError"

fun sub_val :: "pyval \<Rightarrow> pyval \<Rightarrow> error + pyval" where
  "sub_val (PyFloat a) (PyFloat b) = Inr (PyFloat (a - b))"
| "sub_val _ _ = Inl TypeError"

fun neg_val :: "pyval \<Rightarrow> error + pyval" where
  "neg_val (PyFloat a) = Inr (PyFloat (- a))"
| "neg_val _ = Inl TypeError"

fun opt_of :: "pyval \<Rightarrow> real option" where
  "opt_of PyNone = None"
| "opt_of (PyFloat v) = Some v"

definition compute_net_cny_raising :: "string \<Rightarrow> pyval \<Rightarrow> pyval \<Rightarrow> pyval \<Rightarrow> error + pyval" where
  "compute_net_cny_raising direction amount fee rate_to_cny =
     (case mul_val (or_val amount (PyFloat 0)) (or_val rate_to_cny (PyFloat 1)) of
        Inl e \<Rightarrow> Inl e
      | Inr amount_cny \<Rightarrow>
     (case mul_val (or_val fee (PyFloat 0)) (or_val rate_to_cny (PyFloat 1)) of
        Inl e \<Rightarrow> Inl e
      | Inr fee_cny \<Rightarrow>
     if direction = income then sub_val amount_cny fee_cny
     else (case neg_val amount_cny of Inl e \<Rightarrow> Inl e | Inr n \<Rightarrow> sub_val n fee_cny)))"

text \<open>Python's \<^verbatim>\<open>s or d\<close> on a string that may be \<^verbatim>\<open>None\<close>: \<^verbatim>\<open>None\<close> and the empty
  string give \<^verbatim>\<open>d\<close>.\<close>

definition str_or :: "string option \<Rightarrow> string \<Rightarrow> string" where
  "str_or x d = (case x of None \<Rightarrow> d | Some s \<Rightarrow> if s = [] then d else s)"

text \<open>Python's \<^verbatim>\<open>round(x, 2)\<close>: the nearest multiple of 0.01, a tie going to the even
  neighbour.\<close>

definition round_half_even :: "real \<Rightarrow> int" where
  "round_half_even y =
     (let n = \<lfloor>y\<rfloor>; d = y - of_int n
      in if d < 1 / 2 then n
         else if 1 / 2 < d then n + 1
         else if even n then n else n + 1)"

definition round2 :: "real \<Rightarrow> real" where
  "round2 x = of_int (round_half_even (x * 100)) / 100"

section \<open>Calendar dates\<close>

text \<open>
  A \<^verbatim>\<open>datetime.date\<close> is its proleptic Gregorian ordinal (\<^verbatim>\<open>date.toordinal()\<close>, day 1
  is 0001-01-01), so that adding a \<^verbatim>\<open>timedelta(days=k)\<close> is adding \<open>k\<close> and the order
  of dates is the order of integers. \<open>ord2ymd\<close> is the conversion of the \<^verbatim>\<open>datetime\<close>
  module from an ordinal to year, month and day, which formatting and
  \<^verbatim>\<open>replace(day=1)\<close> go through.
\<close>

type_synonym date = int

definition DAYS_IN_MONTH :: "int list" where
  "DAYS_IN_MONTH = [- 1, 31, 28, 31, 30, 31, 30, 31, 31, 30, 31, 30, 31]"

definition DAYS_BEFORE_MONTH :: "int list" where
  "DAYS_BEFORE_MONTH = [- 1, 0, 31, 59, 90, 120, 151, 181, 212, 243, 273, 304, 334]"

definition ord2ymd :: "date \<Rightarrow> int \<times> int \<times> int" where
  "ord2ymd n =
     (let n0 = n - 1;
          n400 = n0 div 146097; r400 = n0 mod 146097;
          n100 = r400 div 36524; r100 = r400 mod 36524;
          n4 = r100 div 1461; r4 = r100 mod 1461;
          n1 = r4 div 365; r = r4 mod 365;
          year = n400 * 400 + 1 + n100 * 100 + n4 * 4 + n1
      in if n1 = 4 \<or> n100 = 4 then (year - 1, 12, 31)
         else
           let leapyear = (n1 = 3 \<and> (n4 \<noteq> 24 \<or> n100 = 3));
               month = (r + 50) div 32;
               preceding = DAYS_BEFORE_MONTH ! nat month + (if 2 < month \<and> leapyear then 1 else 0)
           in if r < preceding
              then let month' = month - 1;
                       preceding' = preceding -
                         (DAYS_IN_MONTH ! nat month' + (if month' = 2 \<and> leapyear then 1 else 0))
                   in (year, month', r - preceding' + 1)
              else (year, month, r - preceding + 1))"

definition year_of :: "date \<Rightarrow> int" where
  "year_of dt = fst (ord2ymd dt)"

definition month_of :: "date \<Rightarrow> int" where
  "month_of dt = fst (snd (ord2ymd dt))"

definition day_of :: "date \<Rightarrow> int" where
  "day_of dt = snd (snd (ord2ymd dt))"

text \<open>\<^verbatim>\<open>dt.replace(day=1)\<close>: the first day of the month of \<open>dt\<close>.\<close>

definition replace_day1 :: "date \<Rightarrow> date" where
  "replace_day1 dt = dt - (day_of dt - 1)"

definition digit :: "int \<Rightarrow> char" where
  "digit k = ''0123456789'' ! nat (k mod 10)"

definition pad2 :: "int \<Rightarrow> string" where
  "pad2 k = [digit (k div 10), digit k]"

definition pad4 :: "int \<Rightarrow> string" where
  "pad4 k = [digit (k div 1000), digit (k div 100), digit (k div 10), digit k]"

text \<open>\<^verbatim>\<open>dt.strftime("%m-%d")\<close>.\<close>

definition strftime_md :: "date \<Rightarrow> string" where
  "strftime_md dt = pad2 (month_of dt) @ ''-'' @ pad2 (day_of dt)"

text \<open>The month label of the grouped query, \<^verbatim>\<open>YYYY-MM\<close>: the three dialect variants
  (\<^verbatim>\<open>strftime('%Y-%m', date)\<close>, \<^verbatim>\<open>to_char(date, 'YYYY-MM')\<close>, the first seven characters
  of the ISO date) give the same text.\<close>

definition month_expr :: "date \<Rightarrow> string" where
  "month_expr dt = pad4 (year_of dt) @ ''-'' @ pad2 (month_of dt)"

section \<open>The ledger store\<close>

text \<open>
  The tables \<^verbatim>\<open>accounts\<close> and \<^verbatim>\<open>entries\<close>. The primary keys are \<open>acct_id\<close> and
  \<open>entry_id\<close> (\<^verbatim>\<open>id\<close> in both classes of the source); a nullable column is an option.
  The column \<^verbatim>\<open>note\<close> is the field \<open>entry_note\<close>.
\<close>

record account =
  acct_id :: nat
  acct_user_id :: nat
  name :: string
  initial_balance :: "real option"

record entry =
  entry_id :: nat
  user_id :: nat
  date :: date
  direction :: string
  amount :: real
  fee :: real
  currency :: string
  rate_to_cny :: real
  account_id :: "nat option"
  category :: "string option"
  tags :: string
  entry_note :: string
  net_cny :: real

record store =
  accounts :: "account list"
  entries :: "entry list"
  next_account_id :: nat
  next_entry_id :: nat

section \<open>Recording an entry\<close>

text \<open>
  A field of the posted form, as the handler reads it: absent or empty (\<open>Missing\<close>, the
  falsy case of \<^verbatim>\<open>d.get(k) or default\<close>), a text that the conversion
  (\<^verbatim>\<open>float\<close>, \<^verbatim>\<open>strptime\<close>, \<^verbatim>\<open>int\<close>) accepts, with its value, or a text that the conversion
  rejects with \<^verbatim>\<open>ValueError\<close>.
\<close>

datatype 'a field = Missing | Parsed 'a | Malformed

record form =
  form_date :: "date field"
  form_direction :: "string option"
  form_amount :: "real field"
  form_fee :: "real field"
  form_currency :: "string option"
  form_rate_to_cny :: "real field"
  form_category :: "string option"
  form_tags :: "string option"
  form_note :: "string option"
  form_account_id :: "nat field"
  form_new_account_name :: string

text \<open>\<^verbatim>\<open>conv(d.get(k) or default)\<close> for a conversion \<^verbatim>\<open>conv\<close> that accepts the default.\<close>

definition convert :: "'a field \<Rightarrow> 'a \<Rightarrow> error + 'a" where
  "convert x d = (case x of Missing \<Rightarrow> Inr d | Parsed v \<Rightarrow> Inr v | Malformed \<Rightarrow> Inl ValueError)"

text \<open>\<^verbatim>\<open>Account.query.filter_by(id=..., user_id=...).first()\<close>.\<close>

definition find_account :: "nat \<Rightarrow> nat \<Rightarrow> account list \<Rightarrow> account option" where
  "find_account aid uid as = List.find (\<lambda>a. acct_id a = aid \<and> acct_user_id a = uid) as"

text \<open>
  The POST branch of \<^verbatim>\<open>dashboard\<close>, for the logged-in user \<open>uid\<close> on the day \<open>today\<close>.
  \<open>form_account_id\<close> is \<open>Parsed n\<close> when the field \<^verbatim>\<open>account_id\<close> passes \<^verbatim>\<open>isdigit()\<close> and
  \<^verbatim>\<open>int\<close> gives \<open>n\<close>, \<open>Malformed\<close> when it passes \<^verbatim>\<open>isdigit()\<close> and \<^verbatim>\<open>int\<close> rejects it, and
  \<open>Missing\<close> otherwise; \<open>form_new_account_name\<close> is the field \<^verbatim>\<open>new_account_name\<close> after
  \<^verbatim>\<open>.strip()\<close>, and \<open>upper\<close> is \<^verbatim>\<open>str.upper\<close>. A \<^verbatim>\<open>ValueError\<close> is caught by the
  \<^verbatim>\<open>except\<close> branch, which rolls the session back, so the store is left as it was: that
  is the result \<open>Inl\<close>.
  \<^verbatim>\<open>
  net_cny = compute_net_cny(direction, amount, fee, rate_to_cny)
  entry = Entry(user_id=current_user.id, date=dt, direction=direction,
                amount=abs(amount), fee=abs(fee), currency=currency,
                rate_to_cny=rate_to_cny,
                account_id=account_obj.id if account_obj else None,
                category=category, tags=tags, note=note, net_cny=net_cny)
  \<close>
\<close>

text \<open>The default category of the form, \<^verbatim>\<open>"\<close>qi-ta\<^verbatim>\<open>"\<close> (other), as UTF-8.\<close>

definition other_category :: string where
  "other_category = [CHR 0xE5, CHR 0x85, CHR 0xB6, CHR 0xE4, CHR 0xBB, CHR 0x96]"

definition dashboard_post :: "(string \<Rightarrow> string) \<Rightarrow> nat \<Rightarrow> date \<Rightarrow> form \<Rightarrow> store \<Rightarrow> error + store" where
  "dashboard_post upper uid today d st =
     (case convert (form_date d) today of Inl e \<Rightarrow> Inl e | Inr dt \<Rightarrow>
      let direction0 = str_or (form_direction d) expense;
          direction1 = (if direction0 \<noteq> income \<and> direction0 \<noteq> expense then expense else direction0)
      in
      case convert (form_amount d) 0 of Inl e \<Rightarrow> Inl e | Inr amount0 \<Rightarrow>
      case convert (form_fee d) 0 of Inl e \<Rightarrow> Inl e | Inr fee0 \<Rightarrow>
      let currency0 = upper (str_or (form_currency d) ''CNY'') in
      case convert (form_rate_to_cny d) 1 of Inl e \<Rightarrow> Inl e | Inr rate0 \<Rightarrow>
      let category0 = str_or (form_category d) other_category;
          tags0 = str_or (form_tags d) [];
          note0 = str_or (form_note d) [];
          new_account_name = form_new_account_name d
      in
      case (if new_account_name \<noteq> []
            then let a = \<lparr>acct_id = next_account_id st, acct_user_id = uid,
                            name = new_account_name, initial_balance = Some 0\<rparr>
                 in Inr (st\<lparr>accounts := accounts st @ [a],
                             next_account_id := Suc (next_account_id st)\<rparr>, Some a)
            else case form_account_id d of
                   Parsed aid \<Rightarrow> Inr (st, find_account aid uid (accounts st))
                 | Missing \<Rightarrow> Inr (st, None)
                 | Malformed \<Rightarrow> Inl ValueError)
      of Inl e \<Rightarrow> Inl e | Inr (st1, account_obj) \<Rightarrow>
      let net = compute_net_cny direction1 (Some amount0) (Some fee0) (Some rate0);
          e = \<lparr>entry_id = next_entry_id st1, user_id = uid, date = dt,
                direction = direction1, amount = \<bar>amount0\<bar>, fee = \<bar>fee0\<bar>,
                currency = currency0, rate_to_cny = rate0,
                account_id = map_option acct_id account_obj,
                category = Some category0, tags = tags0, entry_note = note0, net_cny = net\<rparr>
      in Inr (st1\<lparr>entries := entries st1 @ [e], next_entry_id := Suc (next_entry_id st1)\<rparr>))"

text \<open>
  The sample data of \<^verbatim>\<open>seed.py\<close>, with the fields the net value depends on, and the body
  of its loop, which takes the absolute values before it normalizes:
  \<^verbatim>\<open>
  s["amount"] = abs(s["amount"]); s["fee"] = abs(s["fee"])
  s["net_cny"] = compute_net_cny(s["direction"], s["amount"], s["fee"], s["rate_to_cny"])
  \<close>
\<close>

record sample =
  s_direction :: string
  s_amount :: real
  s_fee :: real
  s_currency :: string
  s_rate_to_cny :: real

definition samples :: "sample list" where
  "samples =
     [\<lparr>s_direction = income, s_amount = 1200, s_fee = 10, s_currency = ''CNY'', s_rate_to_cny = 1\<rparr>,
      \<lparr>s_direction = expense, s_amount = 300, s_fee = 0, s_currency = ''CNY'', s_rate_to_cny = 1\<rparr>,
      \<lparr>s_direction = income, s_amount = 200, s_fee = 2, s_currency = ''USD'', s_rate_to_cny = 7.0\<rparr>,
      \<lparr>s_direction = expense, s_amount = 500, s_fee = 0, s_currency = ''CNY'', s_rate_to_cny = 1\<rparr>,
      \<lparr>s_direction = expense, s_amount = 50, s_fee = 1, s_currency = ''EUR'', s_rate_to_cny = 7.8\<rparr>]"

definition seed_net_cny :: "sample \<Rightarrow> real" where
  "seed_net_cny s =
     compute_net_cny (s_direction s) (Some \<bar>s_amount s\<bar>) (Some \<bar>s_fee s\<bar>) (Some (s_rate_to_cny s))"

section \<open>The aggregation engine\<close>

text \<open>
  The grouped queries of \<^verbatim>\<open>dashboard\<close> and \<^verbatim>\<open>accounts\<close> over the table of entries: the
  rows of the user are filtered, grouped by the key and summed. Every group holds at least
  one row and \<^verbatim>\<open>net_cny\<close> is not nullable, so the sum of a group is a number.
\<close>

subsection \<open>The 30-day series\<close>

text \<open>
  \<^verbatim>\<open>
  rows = db.session.query(Entry.date, func.sum(Entry.net_cny)).filter(
      Entry.user_id == current_user.id, Entry.date >= start_30, Entry.date <= today
  ).group_by(Entry.date).order_by(Entry.date.asc()).all()
  daily_map = {r[0]: float(r[1]) for r in rows}
  \<close>
\<close>

definition dict_of :: "('k \<times> 'v) list \<Rightarrow> ('k \<rightharpoonup> 'v)" where
  "dict_of rows = foldl (\<lambda>m (k, v). m(k \<mapsto> v)) Map.empty rows"

definition dict_get :: "('k \<rightharpoonup> 'v) \<Rightarrow> 'k \<Rightarrow> 'v \<Rightarrow> 'v" where
  "dict_get m k d = (case m k of None \<Rightarrow> d | Some v \<Rightarrow> v)"

definition daily_rows :: "nat \<Rightarrow> date \<Rightarrow> date \<Rightarrow> entry list \<Rightarrow> (date \<times> real) list" where
  "daily_rows uid start_dt end_dt es =
     (let sel = filter (\<lambda>e. user_id e = uid \<and> start_dt \<le> date e \<and> date e \<le> end_dt) es
      in map (\<lambda>k. (k, sum_list (map net_cny (filter (\<lambda>e. date e = k) sel))))
           (sort (remdups (map date sel))))"

text \<open>
  The state of the loop over \<^verbatim>\<open>range(30)\<close> and its body:
  \<^verbatim>\<open>
  dt = start_30 + timedelta(days=i)
  labels_30.append(dt.strftime("%m-%d"))
  v = daily_map.get(dt, 0.0)
  values_30.append(round(v, 2))
  running += v
  cum_values.append(round(running, 2))
  \<close>
\<close>

record series =
  labels_30 :: "string list"
  values_30 :: "real list"
  cum_values :: "real list"
  running :: real

definition series_step :: "date \<Rightarrow> (date \<rightharpoonup> real) \<Rightarrow> series \<Rightarrow> nat \<Rightarrow> series" where
  "series_step start_30 daily_map s i =
     (let dt = start_30 + int i;
          v = dict_get daily_map dt 0
      in s\<lparr>labels_30 := labels_30 s @ [strftime_md dt],
           values_30 := values_30 s @ [round2 v],
           running := running s + v,
           cum_values := cum_values s @ [round2 (running s + v)]\<rparr>)"

definition series_30 :: "date \<Rightarrow> (date \<rightharpoonup> real) \<Rightarrow> series" where
  "series_30 today daily_map =
     foldl (series_step (today - 29) daily_map)
       \<lparr>labels_30 = [], values_30 = [], cum_values = [], running = 0\<rparr> [0..<30]"

definition dashboard_series :: "nat \<Rightarrow> date \<Rightarrow> entry list \<Rightarrow> series" where
  "dashboard_series uid today es =
     series_30 today (dict_of (daily_rows uid (today - 29) today es))"

subsection \<open>The monthly series\<close>

text \<open>
  \<^verbatim>\<open>
  six_months_ago = (today.replace(day=1) - timedelta(days=1)).replace(day=1) - timedelta(days=150)
  month_rows = db.session.query(month_expr.label("ym"), func.sum(Entry.net_cny)).filter(
      Entry.user_id == current_user.id, Entry.date >= six_months_ago
  ).group_by(text("ym")).order_by(text("ym")).all()
  month_labels = [r[0] for r in month_rows]
  month_values = [round(float(r[1] or 0.0), 2) for r in month_rows]
  \<close>
\<close>

definition six_months_ago :: "date \<Rightarrow> date" where
  "six_months_ago today = replace_day1 (replace_day1 today - 1) - 150"

definition month_rows :: "nat \<Rightarrow> date \<Rightarrow> entry list \<Rightarrow> (string \<times> real) list" where
  "month_rows uid since es =
     (let sel = filter (\<lambda>e. user_id e = uid \<and> since \<le> date e) es
      in map (\<lambda>ym. (ym, sum_list (map net_cny (filter (\<lambda>e. month_expr (date e) = ym) sel))))
           (sort (remdups (map (\<lambda>e. month_expr (date e)) sel))))"

definition month_labels :: "(string \<times> real) list \<Rightarrow> string list" where
  "month_labels rows = map fst rows"

definition month_values :: "(string \<times> real) list \<Rightarrow> real list" where
  "month_values rows = map (\<lambda>r. round2 (py_or (Some (snd r)) 0)) rows"

subsection \<open>The category breakdown\<close>

text \<open>
  \<^verbatim>\<open>
  pos_sum = case((Entry.net_cny > 0, Entry.net_cny), else_=0.0)
  cat_rows = db.session.query(Entry.category, func.sum(pos_sum)).filter(
      Entry.user_id == current_user.id).group_by(Entry.category).all()
  cat_labels = [r[0] or "wei-fen-lei" for r in cat_rows]
  cat_values = [round(float(r[1] or 0.0), 2) for r in cat_rows]
  \<close>
  The query has no \<^verbatim>\<open>ORDER BY\<close>; the rows are taken in the order in which the
  categories first occur. \<open>uncategorized\<close> is the label of the source for an entry
  without category, as UTF-8.
\<close>

definition uncategorized :: string where
  "uncategorized = [CHR 0xE6, CHR 0x9C, CHR 0xAA, CHR 0xE5, CHR 0x88, CHR 0x86, CHR 0xE7, CHR 0xB1, CHR 0xBB]"

definition pos_sum :: "entry \<Rightarrow> real" where
  "pos_sum e = (if 0 < net_cny e then net_cny e else 0)"

definition cat_rows :: "nat \<Rightarrow> entry list \<Rightarrow> (string option \<times> real) list" where
  "cat_rows uid es =
     (let sel = filter (\<lambda>e. user_id e = uid) es
      in map (\<lambda>c. (c, sum_list (map pos_sum (filter (\<lambda>e. category e = c) sel))))
           (remdups (map category sel)))"

definition cat_labels :: "(string option \<times> real) list \<Rightarrow> string list" where
  "cat_labels rows = map (\<lambda>r. str_or (fst r) uncategorized) rows"

definition cat_values :: "(string option \<times> real) list \<Rightarrow> real list" where
  "cat_values rows = map (\<lambda>r. round2 (py_or (Some (snd r)) 0)) rows"

subsection \<open>The balances of the accounts\<close>

text \<open>
  \<^verbatim>\<open>
  rows = db.session.query(Account, func.coalesce(func.sum(Entry.net_cny), 0.0).label("pl")
  ).outerjoin(Entry, (Entry.account_id == Account.id) & (Entry.user_id == current_user.id)
  ).filter(Account.user_id == current_user.id
  ).group_by(Account.id).order_by(Account.name.asc()).all()
  for acct, pl in rows:
      cur = round((acct.initial_balance or 0.0) + float(pl or 0.0), 2)
      acct_info.append({"id": acct.id, "name": acct.name,
          "initial_balance": round(acct.initial_balance or 0.0, 2),
          "pl": round(float(pl or 0.0), 2), "current_balance": cur})
  \<close>
  \<^verbatim>\<open>Account.id\<close> is the primary key, so the outer join grouped by it has one row for each
  account of the user; the sum over no entry is \<^verbatim>\<open>NULL\<close>, which \<^verbatim>\<open>coalesce\<close> turns into 0.0.
\<close>

record acct_info =
  info_id :: nat
  info_name :: string
  info_initial_balance :: real
  pl :: real
  current_balance :: real

definition sql_sum :: "real list \<Rightarrow> real option" where
  "sql_sum xs = (if xs = [] then None else Some (sum_list xs))"

definition coalesce :: "real option \<Rightarrow> real \<Rightarrow> real" where
  "coalesce x d = (case x of None \<Rightarrow> d | Some v \<Rightarrow> v)"

definition account_rows :: "nat \<Rightarrow> account list \<Rightarrow> entry list \<Rightarrow> (account \<times> real) list" where
  "account_rows uid as es =
     map (\<lambda>a. (a, coalesce (sql_sum (map net_cny
                  (filter (\<lambda>e. account_id e = Some (acct_id a) \<and> user_id e = uid) es))) 0))
       (sort_key name (filter (\<lambda>a. acct_user_id a = uid) as))"

definition accounts_view :: "nat \<Rightarrow> account list \<Rightarrow> entry list \<Rightarrow> acct_info list" where
  "accounts_view uid as es =
     map (\<lambda>(acct, p).
            \<lparr>info_id = acct_id acct, info_name = name acct,
             info_initial_balance = round2 (py_or (initial_balance acct) 0),
             pl = round2 (py_or (Some p) 0),
             current_balance = round2 (py_or (initial_balance acct) 0 + py_or (Some p) 0)\<rparr>)
       (account_rows uid as es)"

section \<open>An example ledger\<close>

text \<open>
  A small ledger on which the properties below are evaluated. The day 739924 is
  2026-11-04, 739895 is 29 days earlier, 739740 is 2026-05-04 and 739739 the day before.
  User 1 has two entries of today and one of 2026-05-04 in the category \<open>X\<close>, with the
  net values 100, -40 and 25, and an entry of 2026-05-03 without category; the last entry
  belongs to user 2 and to the account of user 2. The entries of today reference the
  account \<open>demo_cash\<close>; the account \<open>demo_bank\<close> has no entry.
\<close>

definition demo_e1 :: entry where
  "demo_e1 = \<lparr>entry_id = 1, user_id = 1, date = 739924, direction = income, amount = 100, fee = 0,
       currency = ''CNY'', rate_to_cny = 1, account_id = Some 1, category = Some ''X'',
       tags = [], entry_note = [], net_cny = 100\<rparr>"

definition demo_e2 :: entry where
  "demo_e2 = \<lparr>entry_id = 2, user_id = 1, date = 739924, direction = expense, amount = 40, fee = 0,
       currency = ''CNY'', rate_to_cny = 1, account_id = Some 1, category = Some ''X'',
       tags = [], entry_note = [], net_cny = - 40\<rparr>"

definition demo_e3 :: entry where
  "demo_e3 = \<lparr>entry_id = 3, user_id = 1, date = 739740, direction = income, amount = 25, fee = 0,
       currency = ''CNY'', rate_to_cny = 1, account_id = None, category = Some ''X'',
       tags = [], entry_note = [], net_cny = 25\<rparr>"

definition demo_e4 :: entry where
  "demo_e4 = \<lparr>entry_id = 4, user_id = 1, date = 739739, direction = income, amount = 10, fee = 0,
       currency = ''CNY'', rate_to_cny = 1, account_id = None, category = None,
       tags = [], entry_note = [], net_cny = 10\<rparr>"

definition demo_e5 :: entry where
  "demo_e5 = \<lparr>entry_id = 5, user_id = 2, date = 739924, direction = income, amount = 7, fee = 0,
       currency = ''CNY'', rate_to_cny = 1, account_id = Some 3, category = Some ''X'',
       tags = [], entry_note = [], net_cny = 7\<rparr>"

definition demo_entries :: "entry list" where
  "demo_entries = [demo_e1, demo_e2, demo_e3, demo_e4, demo_e5]"

definition demo_bank :: account where
  "demo_bank = \<lparr>acct_id = 2, acct_user_id = 1, name = ''bank'', initial_balance = Some 0.5\<rparr>"

definition demo_cash :: account where
  "demo_cash = \<lparr>acct_id = 1, acct_user_id = 1, name = ''cash'', initial_balance = Some 1000\<rparr>"

definition demo_accounts :: "account list" where
  "demo_accounts =
     [demo_cash,
      demo_bank,
      \<lparr>acct_id = 3, acct_user_id = 2, name = ''away'', initial_balance = None\<rparr>]"

definition demo_daily_map :: "date \<rightharpoonup> real" where
  "demo_daily_map = dict_of [(739895, 0.004), (739896, 0.004), (739924, 60)]"

text \<open>
  The references from entries to accounts in the stores that the application builds: an
  entry that references an account references an account of its own user (the POST
  branch of \<^verbatim>\<open>dashboard\<close>, the only place that creates entries, looks the account up with
  \<^verbatim>\<open>user_id=current_user.id\<close> or creates it for the current user), and the ids of the
  accounts are distinct and below the next id.
\<close>

definition refs_owned :: "store \<Rightarrow> bool" where
  "refs_owned st =
     ((\<forall>e \<in> set (entries st).
         case account_id e of
           None \<Rightarrow> True
         | Some aid \<Rightarrow> (\<exists>a \<in> set (accounts st). acct_id a = aid \<and> acct_user_id a = user_id e)) \<and>
      distinct (map acct_id (accounts st)) \<and>
      (\<forall>a \<in> set (accounts st). acct_id a < next_account_id st))"

definition demo_store :: store where
  "demo_store =
     \<lparr>accounts = demo_accounts, entries = demo_entries, next_account_id = 4, next_entry_id = 6\<rparr>"

text \<open>A form that posts the amount -100 for an Income entry, and a store without rows.\<close>

definition negative_amount_form :: form where
  "negative_amount_form =
     \<lparr>form_date = Missing, form_direction = Some income, form_amount = Parsed (- 100),
      form_fee = Missing, form_currency = None, form_rate_to_cny = Missing, form_category = None,
      form_tags = None, form_note = None, form_account_id = Missing, form_new_account_name = []\<rparr>"

definition empty_store :: store where
  "empty_store = \<lparr>accounts = [], entries = [], next_account_id = 1, next_entry_id = 1\<rparr>"

section \<open>Helper facts\<close>

lemma income_neq_expense: "income \<noteq> expense"
  by (simp add: income_def expense_def)

lemma py_or_Some_nonzero: "v \<noteq> 0 \<Longrightarrow> py_or (Some v) d = v"
  by (simp add: py_or_def)

lemma py_or_Some_default_zero: "py_or (Some v) 0 = v"
  by (simp add: py_or_def)

lemma round2_zero: "round2 0 = 0"
  by (simp add: round2_def round_half_even_def)

lemma series_loop:
  fixes s0 :: series
  shows "foldl (series_step st m) s0 [0..<n] =
    \<lparr>labels_30 = labels_30 s0 @ map (\<lambda>i. strftime_md (st + int i)) [0..<n],
     values_30 = values_30 s0 @ map (\<lambda>i. round2 (dict_get m (st + int i) 0)) [0..<n],
     cum_values = cum_values s0 @
        map (\<lambda>i. round2 (running s0 + (\<Sum>j<i. dict_get m (st + int j) 0) + dict_get m (st + int i) 0)) [0..<n],
     running = running s0 + (\<Sum>j<n. dict_get m (st + int j) 0)\<rparr>"
proof (induction n)
  case 0
  show ?case by simp
next
  case (Suc n)
  have "foldl (series_step st m) s0 [0..<Suc n] =
          series_step st m (foldl (series_step st m) s0 [0..<n]) n"
    by simp
  also have "\<dots> = series_step st m
      \<lparr>labels_30 = labels_30 s0 @ map (\<lambda>i. strftime_md (st + int i)) [0..<n],
       values_30 = values_30 s0 @ map (\<lambda>i. round2 (dict_get m (st + int i) 0)) [0..<n],
       cum_values = cum_values s0 @
          map (\<lambda>i. round2 (running s0 + (\<Sum>j<i. dict_get m (st + int j) 0) + dict_get m (st + int i) 0)) [0..<n],
       running = running s0 + (\<Sum>j<n. dict_get m (st + int j) 0)\<rparr> n"
    by (simp only: Suc)
  also have "\<dots> =
      \<lparr>labels_30 = labels_30 s0 @ map (\<lambda>i. strftime_md (st + int i)) [0..<Suc n],
       values_30 = values_30 s0 @ map (\<lambda>i. round2 (dict_get m (st + int i) 0)) [0..<Suc n],
       cum_values = cum_values s0 @
          map (\<lambda>i. round2 (running s0 + (\<Sum>j<i. dict_get m (st + int j) 0) + dict_get m (st + int i) 0)) [0..<Suc n],
       running = running s0 + (\<Sum>j<Suc n. dict_get m (st + int j) 0)\<rparr>"
    by (simp add: series_step_def Let_def add.assoc)
  finally show ?case .
qed

lemma filter_filter_conj: "filter P (filter Q xs) = filter (\<lambda>x. Q x \<and> P x) xs"
  by (induction xs) auto

text \<open>The per-day map of the dashboard: the value looked up for a day is the sum of the net
  values of the user's entries of that day in the window, and 0.0 for a day without
  entry.\<close>

lemma dict_of_foldl:
  "foldl (\<lambda>m (k, v). m(k \<mapsto> v)) m0 rows = m0 ++ map_of (rev rows)"
  by (induction rows arbitrary: m0) (auto simp: map_add_upd_left fun_eq_iff map_add_def split: option.splits)

lemma dict_of_map_of: "dict_of rows = map_of (rev rows)"
  by (simp add: dict_of_def dict_of_foldl)

lemma map_of_rev_graph:
  "map_of (rev (map (\<lambda>k. (k, f k)) ks)) x = (if x \<in> set ks then Some (f x) else None)"
  by (induction ks) (auto simp: map_add_def split: option.splits)

lemma dict_get_daily_rows:
  "dict_get (dict_of (daily_rows uid start_dt end_dt es)) dt 0 =
     sum_list (map net_cny
       (filter (\<lambda>e. user_id e = uid \<and> start_dt \<le> date e \<and> date e \<le> end_dt \<and> date e = dt) es))"
proof -
  let ?sel = "filter (\<lambda>e. user_id e = uid \<and> start_dt \<le> date e \<and> date e \<le> end_dt) es"
  let ?f = "\<lambda>k. sum_list (map net_cny (filter (\<lambda>e. date e = k) ?sel))"
  let ?keys = "sort (remdups (map date ?sel))"
  have rows: "daily_rows uid start_dt end_dt es = map (\<lambda>k. (k, ?f k)) ?keys"
    by (simp add: daily_rows_def Let_def)
  have "map_of (rev (map (\<lambda>k. (k, ?f k)) ?keys)) dt = (if dt \<in> set ?keys then Some (?f dt) else None)"
    by (rule map_of_rev_graph)
  moreover have "dt \<notin> set ?keys \<Longrightarrow> ?f dt = 0"
  proof -
    assume "dt \<notin> set ?keys"
    then have "filter (\<lambda>e. date e = dt) ?sel = []"
      by (auto simp: filter_empty_conv)
    then show "?f dt = 0" by simp
  qed
  ultimately have "dict_get (dict_of (daily_rows uid start_dt end_dt es)) dt 0 = ?f dt"
    by (simp add: dict_get_def dict_of_map_of rows)
  then show ?thesis
    by (simp add: filter_filter_conj conj_assoc)
qed

lemma sum_list_pos_sum:
  "sum_list (map pos_sum xs) = sum_list (map net_cny (filter (\<lambda>e. 0 < net_cny e) xs))"
  by (induction xs) (simp_all add: pos_sum_def)

lemma round2_of_int: "round2 (of_int k) = of_int k"
proof -
  have "\<lfloor>(of_int k :: real) * 100\<rfloor> = k * 100"
    by (metis floor_of_int of_int_mult of_int_numeral)
  then show ?thesis
    by (simp add: round2_def round_half_even_def Let_def)
qed

lemma coalesce_sql_sum: "coalesce (sql_sum xs) 0 = sum_list xs"
  by (simp add: coalesce_def sql_sum_def)

text \<open>The references from entries to accounts are kept by the POST branch of
  \<^verbatim>\<open>dashboard\<close>, and hold in the store without rows.\<close>

lemma round2_cents: "round2 (of_int k / 100) = of_int k / 100"
  by (simp add: round2_def round_half_even_def Let_def)

lemma refs_owned_empty: "refs_owned empty_store"
  by (simp add: refs_owned_def empty_store_def)

lemma refs_owned_user:
  assumes "refs_owned st" and "a \<in> set (accounts st)" and "e \<in> set (entries st)"
    and "account_id e = Some (acct_id a)"
  shows "user_id e = acct_user_id a"
proof -
  from assms(1,3,4) obtain a' where a': "a' \<in> set (accounts st)" "acct_id a' = acct_id a"
      "acct_user_id a' = user_id e"
    by (fastforce simp: refs_owned_def)
  from assms(1) have "inj_on acct_id (set (accounts st))"
    by (simp add: refs_owned_def distinct_map)
  with a' assms(2) have "a' = a"
    by (auto dest: inj_onD)
  with a' show ?thesis by simp
qed

lemma find_account_Some:
  "find_account aid uid as = Some a \<Longrightarrow> a \<in> set as \<and> acct_id a = aid \<and> acct_user_id a = uid"
  by (auto simp: find_account_def find_Some_iff)

lemma account_id_find:
  "map_option acct_id (find_account aid uid as) = None \<or>
   (\<exists>a \<in> set as. map_option acct_id (find_account aid uid as) = Some (acct_id a) \<and>
      acct_user_id a = uid)"
  by (cases "find_account aid uid as") (auto dest: find_account_Some)

lemma dashboard_post_shape:
  assumes "dashboard_post upper uid today d st = Inr st'"
  shows "\<exists>e. entries st' = entries st @ [e] \<and> user_id e = uid \<and>
     ((account_id e = Some (next_account_id st) \<and>
       (\<exists>a. accounts st' = accounts st @ [a] \<and> acct_id a = next_account_id st \<and>
            acct_user_id a = uid) \<and>
       next_account_id st' = Suc (next_account_id st)) \<or>
      (accounts st' = accounts st \<and> next_account_id st' = next_account_id st \<and>
       (account_id e = None \<or>
        (\<exists>a \<in> set (accounts st). account_id e = Some (acct_id a) \<and> acct_user_id a = uid))))"
proof -
  have found: "\<forall>aid. map_option acct_id (find_account aid uid (accounts st)) = None \<or>
      (\<exists>a \<in> set (accounts st).
         map_option acct_id (find_account aid uid (accounts st)) = Some (acct_id a) \<and>
         acct_user_id a = uid)"
    using account_id_find by blast
  from assms found show ?thesis
    by (auto simp: dashboard_post_def Let_def
        split: sum.splits prod.splits if_splits field.splits)
qed

lemma refs_owned_dashboard_post:
  assumes inv: "refs_owned st" and post: "dashboard_post upper uid today d st = Inr st'"
  shows "refs_owned st'"
proof -
  from dashboard_post_shape [OF post] obtain e where e: "entries st' = entries st @ [e]"
      "user_id e = uid"
    and cases: "(account_id e = Some (next_account_id st) \<and>
       (\<exists>a. accounts st' = accounts st @ [a] \<and> acct_id a = next_account_id st \<and>
            acct_user_id a = uid) \<and>
       next_account_id st' = Suc (next_account_id st)) \<or>
      (accounts st' = accounts st \<and> next_account_id st' = next_account_id st \<and>
       (account_id e = None \<or>
        (\<exists>a \<in> set (accounts st). account_id e = Some (acct_id a) \<and> acct_user_id a = uid)))"
    by blast
  from cases show ?thesis
  proof
    assume new: "account_id e = Some (next_account_id st) \<and>
       (\<exists>a. accounts st' = accounts st @ [a] \<and> acct_id a = next_account_id st \<and>
            acct_user_id a = uid) \<and>
       next_account_id st' = Suc (next_account_id st)"
    then obtain a where a: "accounts st' = accounts st @ [a]" "acct_id a = next_account_id st"
        "acct_user_id a = uid"
      by blast
    from inv have fresh: "next_account_id st \<notin> acct_id ` set (accounts st)"
      by (auto simp: refs_owned_def)
    from inv e a new fresh show ?thesis
      by (fastforce simp: refs_owned_def split: option.splits intro: less_SucI)
  next
    assume old: "accounts st' = accounts st \<and> next_account_id st' = next_account_id st \<and>
       (account_id e = None \<or>
        (\<exists>a \<in> set (accounts st). account_id e = Some (acct_id a) \<and> acct_user_id a = uid))"
    with inv e show ?thesis
      by (fastforce simp: refs_owned_def split: option.splits)
  qed
qed

text \<open>What the POST branch stores: the amount and the fee as absolute values, the net value
  computed from the amount and the fee as posted.\<close>

lemma dashboard_post_stored:
  assumes "dashboard_post upper uid today d st = Inr st'"
  shows "\<exists>e a f. entries st' = entries (st) @ [e] \<and>
           convert (form_amount d) 0 = Inr a \<and> convert (form_fee d) 0 = Inr f \<and>
           amount e = \<bar>a\<bar> \<and> fee e = \<bar>f\<bar> \<and>
           net_cny e = compute_net_cny (direction e) (Some a) (Some f) (Some (rate_to_cny e))"
  using assms
  by (auto simp: dashboard_post_def Let_def split: sum.splits prod.splits if_splits field.splits)

section \<open>Properties of the normalization function\<close>

text \<open>
  C1. For a direction that is Income or Expense, an amount and a fee that are not
  negative and a positive rate, the net value is \<open>amount * rate - fee * rate\<close> for Income
  and \<open>- (amount * rate) - fee * rate\<close> for Expense.
\<close>

theorem compute_net_cny_formula:
  assumes "d = income \<or> d = expense"
    and "0 \<le> a" and "0 \<le> f" and "0 < r"
  shows "compute_net_cny d (Some a) (Some f) (Some r) =
           (if d = income then a * r - f * r else - (a * r) - f * r)"
proof -
  have rate: "py_or (Some r) 1 = r"
    using assms(4) by (simp add: py_or_Some_nonzero)
  show ?thesis
    by (simp add: compute_net_cny_def Let_def rate py_or_Some_default_zero)
qed

theorem compute_net_cny_formula_witness:
  "(expense = income \<or> expense = expense) \<and> (0::real) \<le> 50 \<and> (0::real) \<le> 1 \<and> (0::real) < 7.8 \<and>
   compute_net_cny expense (Some 50) (Some 1) (Some 7.8) = - 397.8"
  using compute_net_cny_formula [of expense 50 1 "7.8"] income_neq_expense by simp

text \<open>
  C4. For every direction, an amount and a fee that are not negative and a positive
  rate, the net value is the net value of the same entry without fee, less
  \<open>fee * rate\<close>: the fee is a cost on Income entries too.
\<close>

theorem fee_always_reduces_net:
  assumes "0 \<le> a" and "0 \<le> f" and "0 < r"
  shows "compute_net_cny d (Some a) (Some f) (Some r) =
           compute_net_cny d (Some a) (Some 0) (Some r) - f * r"
proof -
  have rate: "py_or (Some r) 1 = r"
    using assms(3) by (simp add: py_or_Some_nonzero)
  show ?thesis
    by (simp add: compute_net_cny_def Let_def rate py_or_Some_default_zero)
qed

theorem fee_always_reduces_net_witness:
  "(0::real) \<le> 1200 \<and> (0::real) \<le> 10 \<and> (0::real) < 1 \<and>
   compute_net_cny income (Some 1200) (Some 10) (Some 1) =
     compute_net_cny income (Some 1200) (Some 0) (Some 1) - 10 * 1"
  using fee_always_reduces_net [of 1200 10 1 income] by simp

text \<open>
  C8. The function never raises: with the failures of the operators written out it
  returns a float for every direction and all amounts, fees and rates that are floats or
  missing. A missing or zero rate is replaced by 1.0 and a missing amount or fee counts
  as 0.0, so that without a rate the net value is \<open>a - f\<close> for Income and \<open>- a - f\<close>
  otherwise. Every other rate is used as supplied, a negative one too: for \<open>r \<noteq> 0\<close> the
  net value is \<open>a * r - f * r\<close> for Income and \<open>- (a * r) - f * r\<close> otherwise, whatever the
  direction and the fee; with rate \<open>- r\<close>, \<open>r > 0\<close>, an Income entry of amount \<open>a\<close> without
  fee has the net value \<open>- (a * r)\<close>.
\<close>

theorem falsy_defaults_and_negative_rate:
  "compute_net_cny_raising d x y z = Inr (PyFloat (compute_net_cny d (opt_of x) (opt_of y) (opt_of z))) \<and>
   compute_net_cny d a f None = compute_net_cny d a f (Some 1) \<and>
   compute_net_cny d a f (Some 0) = compute_net_cny d a f (Some 1) \<and>
   compute_net_cny d None f r = compute_net_cny d (Some 0) f r \<and>
   compute_net_cny d a None r = compute_net_cny d a (Some 0) r \<and>
   compute_net_cny d (Some a') (Some f') None =
     (if d = income then a' - f' else - a' - f') \<and>
   compute_net_cny d (Some a') (Some f') (Some 0) =
     (if d = income then a' - f' else - a' - f') \<and>
   (r' \<noteq> 0 \<longrightarrow>
      compute_net_cny d (Some a') (Some f') (Some r') =
        (if d = income then a' * r' - f' * r' else - (a' * r') - f' * r')) \<and>
   (0 < r' \<longrightarrow>
      compute_net_cny d (Some a') (Some f') (Some (- r')) =
        (if d = income then - (a' * r') + f' * r' else a' * r' + f' * r')) \<and>
   (0 < r' \<longrightarrow> compute_net_cny income (Some a') (Some 0) (Some (- r')) = - (a' * r'))"
proof -
  have total: "compute_net_cny_raising d x y z =
      Inr (PyFloat (compute_net_cny d (opt_of x) (opt_of y) (opt_of z)))"
    by (cases x; cases y; cases z)
       (simp_all add: compute_net_cny_raising_def compute_net_cny_def or_val_def py_or_def Let_def)
  have rest: "compute_net_cny d a f None = compute_net_cny d a f (Some 1) \<and>
   compute_net_cny d a f (Some 0) = compute_net_cny d a f (Some 1) \<and>
   compute_net_cny d None f r = compute_net_cny d (Some 0) f r \<and>
   compute_net_cny d a None r = compute_net_cny d a (Some 0) r \<and>
   compute_net_cny d (Some a') (Some f') None =
     (if d = income then a' - f' else - a' - f') \<and>
   compute_net_cny d (Some a') (Some f') (Some 0) =
     (if d = income then a' - f' else - a' - f') \<and>
   (r' \<noteq> 0 \<longrightarrow>
      compute_net_cny d (Some a') (Some f') (Some r') =
        (if d = income then a' * r' - f' * r' else - (a' * r') - f' * r')) \<and>
   (0 < r' \<longrightarrow>
      compute_net_cny d (Some a') (Some f') (Some (- r')) =
        (if d = income then - (a' * r') + f' * r' else a' * r' + f' * r')) \<and>
   (0 < r' \<longrightarrow> compute_net_cny income (Some a') (Some 0) (Some (- r')) = - (a' * r'))"
    by (simp add: compute_net_cny_def Let_def py_or_def)
  from total rest show ?thesis by (rule conjI)
qed

theorem falsy_defaults_and_negative_rate_witness:
  "(7::real) \<noteq> 0 \<and> (0::real) < 7 \<and>
   compute_net_cny_raising expense (PyFloat 200) PyNone (PyFloat (- 7)) = Inr (PyFloat 1400) \<and>
   compute_net_cny expense (Some 200) (Some 3) (Some (- 7)) = 1421 \<and>
   compute_net_cny income (Some 200) (Some 3) (Some 7) = 1379 \<and>
   compute_net_cny income (Some 200) (Some 0) (Some (- 7)) = - 1400 \<and>
   compute_net_cny income (Some 200) None None = 200"
proof -
  note a = falsy_defaults_and_negative_rate
             [of expense "PyFloat 200" PyNone "PyFloat (- 7)" "Some 200" None None 200 3 7]
  note b = falsy_defaults_and_negative_rate
             [of income "PyFloat 200" PyNone PyNone "Some 200" None None 200 0 7]
  note c = falsy_defaults_and_negative_rate
             [of income "PyFloat 200" PyNone PyNone "Some 200" None None 200 3 7]
  have ne: "(7::real) \<noteq> 0" and pos: "(0::real) < 7"
    by simp_all
  have ev: "compute_net_cny expense (opt_of (PyFloat 200)) (opt_of PyNone) (opt_of (PyFloat (- 7))) = 1400"
    using a income_neq_expense by (simp add: compute_net_cny_def py_or_def)
  from a b c ne pos ev income_neq_expense show ?thesis
    by simp
qed

text \<open>
  C10. Every direction other than the Income tag takes the Expense branch: the
  function compares with the Income tag only and rejects no direction. (Amended: the
  value is the one the function gives for the Expense tag, which is
  \<open>- (amount * rate) - fee * rate\<close> when the rate is not zero; a zero rate is replaced
  by 1.0 first.)
\<close>

theorem non_income_is_expense:
  assumes "d \<noteq> income"
  shows "compute_net_cny d a f r = compute_net_cny expense a f r \<and>
         (r' \<noteq> 0 \<longrightarrow>
            compute_net_cny d (Some a') (Some f') (Some r') = - (a' * r') - f' * r')"
  using assms income_neq_expense
  by (simp add: compute_net_cny_def Let_def py_or_def)

theorem non_income_is_expense_witness:
  "''refund'' \<noteq> income \<and> (7.8::real) \<noteq> 0 \<and>
   compute_net_cny ''refund'' (Some 50) (Some 1) (Some 7.8) = - 397.8"
proof -
  have ne: "''refund'' \<noteq> income"
    by (simp add: income_def)
  show ?thesis
    using non_income_is_expense [OF ne, of "Some 50" "Some 1" "Some 7.8" "7.8" 50 1] ne
    by simp
qed

theorem non_income_formula_counterexample:
  "expense \<noteq> income \<and>
   compute_net_cny expense (Some 5) (Some 0) (Some 0) \<noteq> - (5 * 0) - 0 * (0::real)"
  using income_neq_expense by (simp add: compute_net_cny_def Let_def py_or_def)

text \<open>
  C9. On the five samples of \<^verbatim>\<open>seed.py\<close>, (Income, 1200, 10, rate 1), (Expense, 300, 0,
  rate 1), (Income, 200, 2, rate 7.0), (Expense, 500, 0, rate 1) and (Expense, 50, 1,
  rate 7.8), the net values are 1190, -300, 1386, -500 and -397.8, and their sum is 1378.2.
\<close>

theorem seed_net_values:
  "map seed_net_cny samples = [1190, - 300, 1386, - 500, - 397.8] \<and>
   sum_list (map seed_net_cny samples) = 1378.2"
  by (simp add: samples_def seed_net_cny_def compute_net_cny_def py_or_def income_neq_expense [symmetric])

section \<open>Properties of recording an entry\<close>

text \<open>
  C2. A stored entry should carry the net value that the normalization function gives
  on its stored direction, amount, fee and rate, with the amount and the fee stored as
  absolute values, also when the posted amount is negative. The POST branch normalizes
  before it takes the absolute values: for an Income entry posted with the amount -100 it
  stores the amount 100 and the net value -100, where the normalization function on the
  stored fields gives 100.
\<close>

theorem dashboard_post_negative_amount:
  "dashboard_post upper 1 739924 negative_amount_form empty_store =
     Inr \<lparr>accounts = [],
          entries = [\<lparr>entry_id = 1, user_id = 1, date = 739924, direction = income,
                      amount = 100, fee = 0, currency = upper ''CNY'', rate_to_cny = 1,
                      account_id = None, category = Some other_category, tags = [],
                      entry_note = [], net_cny = - 100\<rparr>],
          next_account_id = 1, next_entry_id = 2\<rparr> \<and>
   compute_net_cny income (Some 100) (Some 0) (Some 1) = 100"
  by (simp add: dashboard_post_def negative_amount_form_def empty_store_def convert_def str_or_def
      income_def compute_net_cny_def py_or_def Let_def)

section \<open>Properties of the aggregation engine\<close>

text \<open>
  C3. For every per-day map, the 30-day series has exactly 30 labels, 30 daily values and
  30 cumulative values; index \<open>i\<close> is the day \<open>today - 29 + i\<close>, so the series runs from
  the oldest day to today; the label is that day as \<^verbatim>\<open>MM-DD\<close>; a day absent from the map
  has the daily value 0; and the cumulative value at \<open>i\<close> is the rounding of the unrounded
  total of the days before \<open>i\<close> (0 before the first day) plus the unrounded value of
  day \<open>i\<close>. Only emitted values are rounded: the running total at the end is the
  unrounded sum.
\<close>

theorem series_30_spec:
  "length (labels_30 (series_30 today m)) = 30 \<and>
   length (values_30 (series_30 today m)) = 30 \<and>
   length (cum_values (series_30 today m)) = 30 \<and>
   (\<forall>i<30.
      labels_30 (series_30 today m) ! i = strftime_md (today - 29 + int i) \<and>
      values_30 (series_30 today m) ! i = round2 (dict_get m (today - 29 + int i) 0) \<and>
      (m (today - 29 + int i) = None \<longrightarrow> values_30 (series_30 today m) ! i = 0) \<and>
      cum_values (series_30 today m) ! i =
        round2 ((\<Sum>j<i. dict_get m (today - 29 + int j) 0) + dict_get m (today - 29 + int i) 0)) \<and>
   today - 29 + int 29 = today \<and>
   running (series_30 today m) = (\<Sum>j<30. dict_get m (today - 29 + int j) 0)"
  by (simp add: series_30_def series_loop dict_get_def round2_zero del: upt.simps)

theorem series_30_spec_witness:
  "length (labels_30 (series_30 739924 demo_daily_map)) = 30 \<and>
   labels_30 (series_30 739924 demo_daily_map) ! 0 = ''10-06'' \<and>
   labels_30 (series_30 739924 demo_daily_map) ! 29 = ''11-04'' \<and>
   values_30 (series_30 739924 demo_daily_map) ! 1 = 0 \<and>
   values_30 (series_30 739924 demo_daily_map) ! 2 = 0 \<and>
   cum_values (series_30 739924 demo_daily_map) ! 1 = 0.01 \<and>
   cum_values (series_30 739924 demo_daily_map) ! 29 = 60.01"
proof -
  note th = series_30_spec [of 739924 demo_daily_map]
  note idx = th [THEN conjunct2, THEN conjunct2, THEN conjunct2, THEN conjunct1, rule_format]
  have l0: "strftime_md (739924 - 29 + int 0) = ''10-06''"
    by code_simp
  have l29: "strftime_md (739924 - 29 + int 29) = ''11-04''"
    by code_simp
  have v1: "round2 (dict_get demo_daily_map (739924 - 29 + int 1) 0) = 0"
    by code_simp
  have gap: "demo_daily_map (739924 - 29 + int 2) = None"
    by code_simp
  have c1: "round2 ((\<Sum>j<1. dict_get demo_daily_map (739924 - 29 + int j) 0) +
              dict_get demo_daily_map (739924 - 29 + int 1) 0) = 0.01"
    by code_simp
  have c29: "round2 ((\<Sum>j<29. dict_get demo_daily_map (739924 - 29 + int j) 0) +
              dict_get demo_daily_map (739924 - 29 + int 29) 0) = 60.01"
    by code_simp
  have i0: "(0::nat) < 30" and i1: "(1::nat) < 30" and i2: "(2::nat) < 30" and i29: "(29::nat) < 30"
    by simp_all
  from th idx [OF i0] idx [OF i1] idx [OF i2] idx [OF i29] l0 l29 v1 gap c1 c29
  show ?thesis
    by (simp only: simp_thms)
qed

text \<open>
  C6. The monthly series has one pair of label and sum for each month in which the user
  has an entry dated on or after the start of the window (the bound is inclusive), and
  for no other month: a month without such an entry is absent, no zero is inserted. The
  labels are \<^verbatim>\<open>YYYY-MM\<close>, strictly ascending; the sum of a label is the sum of the net
  values of those entries, and the emitted values are these sums rounded to 2 decimals.
\<close>

theorem month_rows_spec:
  "set (month_labels (month_rows uid since es)) =
     {month_expr (date e) | e. e \<in> set es \<and> user_id e = uid \<and> since \<le> date e} \<and>
   sorted_wrt (<) (month_labels (month_rows uid since es)) \<and>
   (\<forall>r \<in> set (month_rows uid since es).
      snd r = sum_list (map net_cny
        (filter (\<lambda>e. user_id e = uid \<and> since \<le> date e \<and> month_expr (date e) = fst r) es))) \<and>
   month_values (month_rows uid since es) = map (\<lambda>r. round2 (snd r)) (month_rows uid since es)"
proof -
  let ?sel = "filter (\<lambda>e. user_id e = uid \<and> since \<le> date e) es"
  let ?keys = "sort (remdups (map (\<lambda>e. month_expr (date e)) ?sel))"
  have labels: "month_labels (month_rows uid since es) = ?keys"
    by (simp add: month_labels_def month_rows_def Let_def comp_def)
  have a: "set ?keys = {month_expr (date e) | e. e \<in> set es \<and> user_id e = uid \<and> since \<le> date e}"
    by auto
  have b: "sorted_wrt (<) ?keys"
    by (simp add: strict_sorted_iff)
  have c: "\<forall>r \<in> set (month_rows uid since es).
      snd r = sum_list (map net_cny
        (filter (\<lambda>e. user_id e = uid \<and> since \<le> date e \<and> month_expr (date e) = fst r) es))"
    by (auto simp: month_rows_def Let_def filter_filter_conj conj_assoc)
  have d: "month_values (month_rows uid since es) = map (\<lambda>r. round2 (snd r)) (month_rows uid since es)"
    by (simp add: month_values_def py_or_Some_default_zero)
  from a b c d show ?thesis
    by (simp only: labels)
qed

theorem month_rows_spec_witness:
  "six_months_ago 739924 = 739740 \<and>
   (''2026-05'', 25) \<in> set (month_rows 1 (six_months_ago 739924) demo_entries) \<and>
   sum_list (map net_cny
     (filter (\<lambda>e. user_id e = 1 \<and> six_months_ago 739924 \<le> date e \<and> month_expr (date e) = ''2026-05'')
        demo_entries)) = 25 \<and>
   month_labels (month_rows 1 (six_months_ago 739924) demo_entries) = [''2026-05'', ''2026-11''] \<and>
   sorted_wrt (<) (month_labels (month_rows 1 (six_months_ago 739924) demo_entries)) \<and>
   month_values (month_rows 1 (six_months_ago 739924) demo_entries) = [25, 60]"
proof -
  note th = month_rows_spec [of 1 "six_months_ago 739924" demo_entries]
  have start: "six_months_ago 739924 = 739740"
    by code_simp
  have rows: "month_rows 1 (six_months_ago 739924) demo_entries = [(''2026-05'', 25), (''2026-11'', 60)]"
    by code_simp
  have mem: "(''2026-05'', 25) \<in> set (month_rows 1 (six_months_ago 739924) demo_entries)"
    unfolding rows by simp
  have labels: "month_labels (month_rows 1 (six_months_ago 739924) demo_entries) = [''2026-05'', ''2026-11'']"
    unfolding rows month_labels_def by simp
  have vals: "map (\<lambda>r. round2 (snd r)) (month_rows 1 (six_months_ago 739924) demo_entries) = [25, 60]"
    unfolding rows using round2_of_int [of 25] round2_of_int [of 60] by simp
  note sum = th [THEN conjunct2, THEN conjunct2, THEN conjunct1, rule_format, OF mem]
  note srt = th [THEN conjunct2, THEN conjunct1]
  note rnd = th [THEN conjunct2, THEN conjunct2, THEN conjunct2]
  from start mem sum labels srt rnd vals show ?thesis
    by simp
qed

text \<open>
  C5. The category breakdown has one row for each category of the user's entries. Its
  value sums the net values of the entries of the category that are positive; an entry
  with a negative net value contributes nothing. A missing category is reported under
  the label \<open>uncategorized\<close>, a non-empty one under its own name. Three entries of
  one category with the net values 100, -40 and 25 give the value 125.
\<close>

theorem cat_rows_spec:
  "length (cat_labels (cat_rows uid es)) = length (cat_rows uid es) \<and>
   length (cat_values (cat_rows uid es)) = length (cat_rows uid es) \<and>
   distinct (map fst (cat_rows uid es)) \<and>
   set (map fst (cat_rows uid es)) = {category e | e. e \<in> set es \<and> user_id e = uid} \<and>
   (\<forall>i < length (cat_rows uid es).
      cat_values (cat_rows uid es) ! i =
        round2 (sum_list (map net_cny
          (filter (\<lambda>e. user_id e = uid \<and> category e = fst (cat_rows uid es ! i) \<and> 0 < net_cny e) es))) \<and>
      (fst (cat_rows uid es ! i) = None \<longrightarrow> cat_labels (cat_rows uid es) ! i = uncategorized) \<and>
      (\<forall>c. fst (cat_rows uid es ! i) = Some c \<and> c \<noteq> [] \<longrightarrow> cat_labels (cat_rows uid es) ! i = c)) \<and>
   (user_id e1 = uid \<and> user_id e2 = uid \<and> user_id e3 = uid \<and>
    category e1 = category e2 \<and> category e2 = category e3 \<and>
    net_cny e1 = 100 \<and> net_cny e2 = - 40 \<and> net_cny e3 = 25 \<longrightarrow>
      cat_values (cat_rows uid [e1, e2, e3]) = [125])"
proof -
  let ?sel = "filter (\<lambda>e. user_id e = uid) es"
  let ?keys = "remdups (map category ?sel)"
  have fst_rows: "map fst (cat_rows uid es) = ?keys"
    by (simp add: cat_rows_def Let_def comp_def)
  have len: "length (cat_rows uid es) = length ?keys"
    by (simp add: cat_rows_def Let_def)
  have a: "distinct (map fst (cat_rows uid es))"
    by (simp only: fst_rows distinct_remdups)
  have b: "set (map fst (cat_rows uid es)) = {category e | e. e \<in> set es \<and> user_id e = uid}"
    unfolding fst_rows by auto
  have row: "cat_rows uid es ! i =
      (?keys ! i, sum_list (map pos_sum (filter (\<lambda>e. category e = ?keys ! i) ?sel)))"
    if "i < length (cat_rows uid es)" for i
    using that by (simp add: cat_rows_def Let_def)
  have c: "cat_values (cat_rows uid es) ! i =
        round2 (sum_list (map net_cny
          (filter (\<lambda>e. user_id e = uid \<and> category e = fst (cat_rows uid es ! i) \<and> 0 < net_cny e) es)))"
    if "i < length (cat_rows uid es)" for i
    using that
    by (simp add: cat_values_def row py_or_Some_default_zero sum_list_pos_sum
        filter_filter_conj conj_assoc)
  have d: "fst (cat_rows uid es ! i) = None \<longrightarrow> cat_labels (cat_rows uid es) ! i = uncategorized"
    if "i < length (cat_rows uid es)" for i
    using that by (simp add: cat_labels_def str_or_def)
  have d': "\<forall>c. fst (cat_rows uid es ! i) = Some c \<and> c \<noteq> [] \<longrightarrow> cat_labels (cat_rows uid es) ! i = c"
    if "i < length (cat_rows uid es)" for i
    using that by (simp add: cat_labels_def str_or_def)
  have e: "cat_values (cat_rows uid [e1, e2, e3]) = [125]"
    if "user_id e1 = uid \<and> user_id e2 = uid \<and> user_id e3 = uid \<and>
        category e1 = category e2 \<and> category e2 = category e3 \<and>
        net_cny e1 = 100 \<and> net_cny e2 = - 40 \<and> net_cny e3 = 25"
    using that round2_of_int [of 125]
    by (simp add: cat_rows_def cat_values_def Let_def pos_sum_def py_or_def)
  show ?thesis
    using a b c d d' e by (simp add: cat_labels_def cat_values_def)
qed

theorem cat_rows_spec_witness:
  "length (cat_rows 1 demo_entries) = 2 \<and>
   cat_values (cat_rows 1 demo_entries) ! 1 = 10 \<and>
   cat_labels (cat_rows 1 demo_entries) ! 1 = uncategorized \<and>
   cat_labels (cat_rows 1 demo_entries) ! 0 = ''X'' \<and>
   cat_values (cat_rows 1 [demo_e1, demo_e2, demo_e3]) = [125]"
proof -
  note th = cat_rows_spec [of 1 demo_entries demo_e1 demo_e2 demo_e3]
  have rows: "cat_rows 1 demo_entries = [(Some ''X'', 125), (None, 10)]"
    by code_simp
  have len: "length (cat_rows 1 demo_entries) = 2"
    unfolding rows by simp
  have i0: "0 < length (cat_rows 1 demo_entries)" and i1: "1 < length (cat_rows 1 demo_entries)"
    unfolding len by simp_all
  have none: "fst (cat_rows 1 demo_entries ! 1) = None"
    unfolding rows by simp
  have some: "fst (cat_rows 1 demo_entries ! 0) = Some ''X'' \<and> ''X'' \<noteq> []"
    unfolding rows by simp
  have total: "round2 (sum_list (map net_cny
          (filter (\<lambda>e. user_id e = 1 \<and> category e = fst (cat_rows 1 demo_entries ! 1) \<and> 0 < net_cny e)
             demo_entries))) = 10"
    by code_simp
  have trio: "user_id demo_e1 = 1 \<and> user_id demo_e2 = 1 \<and> user_id demo_e3 = 1 \<and>
      category demo_e1 = category demo_e2 \<and> category demo_e2 = category demo_e3 \<and>
      net_cny demo_e1 = 100 \<and> net_cny demo_e2 = - 40 \<and> net_cny demo_e3 = 25"
    by (simp add: demo_e1_def demo_e2_def demo_e3_def)
  note idx = th [THEN conjunct2, THEN conjunct2, THEN conjunct2, THEN conjunct2, THEN conjunct1, rule_format]
  note ex = th [THEN conjunct2, THEN conjunct2, THEN conjunct2, THEN conjunct2, THEN conjunct2, rule_format, OF trio]
  note r1 = idx [OF i1]
  note r0 = idx [OF i0]
  from r1 total have a: "cat_values (cat_rows 1 demo_entries) ! 1 = 10"
    by simp
  from r1 none have b: "cat_labels (cat_rows 1 demo_entries) ! 1 = uncategorized"
    by simp
  from r0 some have c: "cat_labels (cat_rows 1 demo_entries) ! 0 = ''X''"
    by blast
  from len a b c ex show ?thesis
    by simp
qed

text \<open>
  C7 (amended). Every account of the user has a row in the accounts view. Its current
  balance is the initial balance plus the sum of the net values of the entries that the
  outer join matches, those of the user that reference the account, rounded to 2
  decimals; in a store where entries reference accounts of their own user, as the
  application builds it, these are the entries referencing the account. An account
  with zero matching entries has the current balance of its initial balance rounded to
  2 decimals, which is the initial balance that the row reports, and is the initial
  balance itself when that is a whole number of hundredths.
\<close>

theorem accounts_view_spec:
  assumes "a \<in> set (accounts st)" and "acct_user_id a = uid"
  shows "\<exists>row \<in> set (accounts_view uid (accounts st) (entries st)).
           info_id row = acct_id a \<and> info_name row = name a \<and>
           current_balance row =
             round2 (py_or (initial_balance a) 0 +
               sum_list (map net_cny
                 (filter (\<lambda>e. account_id e = Some (acct_id a) \<and> user_id e = uid) (entries st)))) \<and>
           (refs_owned st \<longrightarrow>
              current_balance row =
                round2 (py_or (initial_balance a) 0 +
                  sum_list (map net_cny
                    (filter (\<lambda>e. account_id e = Some (acct_id a)) (entries st))))) \<and>
           (filter (\<lambda>e. account_id e = Some (acct_id a) \<and> user_id e = uid) (entries st) = [] \<longrightarrow>
              current_balance row = round2 (py_or (initial_balance a) 0) \<and>
              current_balance row = info_initial_balance row \<and>
              (initial_balance a = Some (of_int k / 100) \<longrightarrow>
                 current_balance row = of_int k / 100))"
proof -
  let ?es = "entries st"
  let ?as = "accounts st"
  let ?row = "\<lambda>a. \<lparr>info_id = acct_id a, info_name = name a,
             info_initial_balance = round2 (py_or (initial_balance a) 0),
             pl = round2 (sum_list (map net_cny
                 (filter (\<lambda>e. account_id e = Some (acct_id a) \<and> user_id e = uid) ?es))),
             current_balance = round2 (py_or (initial_balance a) 0 + sum_list (map net_cny
                 (filter (\<lambda>e. account_id e = Some (acct_id a) \<and> user_id e = uid) ?es)))\<rparr>"
  have view: "accounts_view uid ?as ?es = map ?row (sort_key name (filter (\<lambda>a. acct_user_id a = uid) ?as))"
    by (simp add: accounts_view_def account_rows_def comp_def coalesce_sql_sum py_or_Some_default_zero)
  have "a \<in> set (sort_key name (filter (\<lambda>a. acct_user_id a = uid) ?as))"
    using assms by simp
  then have "?row a \<in> ?row ` set (sort_key name (filter (\<lambda>a. acct_user_id a = uid) ?as))"
    by (rule imageI)
  then have mem: "?row a \<in> set (accounts_view uid ?as ?es)"
    by (simp only: view set_map)
  have owned: "filter (\<lambda>e. account_id e = Some (acct_id a) \<and> user_id e = uid) ?es =
      filter (\<lambda>e. account_id e = Some (acct_id a)) ?es" if "refs_owned st"
  proof (rule filter_cong [OF refl])
    fix e assume "e \<in> set ?es"
    with that assms show "(account_id e = Some (acct_id a) \<and> user_id e = uid) =
        (account_id e = Some (acct_id a))"
      by (auto dest: refs_owned_user)
  qed
  have cents: "py_or (Some (of_int k / 100)) 0 = of_int k / 100"
    by (rule py_or_Some_default_zero)
  from mem show ?thesis
    by (rule rev_bexI) (simp add: owned cents round2_cents)
qed

theorem accounts_view_spec_witness:
  "refs_owned demo_store \<and>
   demo_cash \<in> set (accounts demo_store) \<and> acct_user_id demo_cash = 1 \<and>
   (\<exists>row. row \<in> set (accounts_view 1 (accounts demo_store) (entries demo_store)) \<and>
      info_id row = 1 \<and> info_name row = ''cash'' \<and> current_balance row = 1060) \<and>
   demo_bank \<in> set (accounts demo_store) \<and> acct_user_id demo_bank = 1 \<and>
   filter (\<lambda>e. account_id e = Some (acct_id demo_bank) \<and> user_id e = 1) (entries demo_store) = [] \<and>
   initial_balance demo_bank = Some (of_int 50 / 100) \<and>
   (\<exists>row. row \<in> set (accounts_view 1 (accounts demo_store) (entries demo_store)) \<and>
      info_id row = 2 \<and> info_name row = ''bank'' \<and> current_balance row = 0.5 \<and>
      info_initial_balance row = 0.5)"
proof -
  have inv: "refs_owned demo_store"
    by code_simp
  have c1: "demo_cash \<in> set (accounts demo_store)"
    by (simp add: demo_store_def demo_accounts_def)
  have c2: "acct_user_id demo_cash = 1"
    by (simp add: demo_cash_def)
  have b1: "demo_bank \<in> set (accounts demo_store)"
    by (simp add: demo_store_def demo_accounts_def)
  have b2: "acct_user_id demo_bank = 1"
    by (simp add: demo_bank_def)
  have none: "filter (\<lambda>e. account_id e = Some (acct_id demo_bank) \<and> user_id e = 1)
      (entries demo_store) = []"
    by code_simp
  have half: "initial_balance demo_bank = Some (of_int 50 / 100)"
    by (simp add: demo_bank_def)
  have total: "round2 (py_or (initial_balance demo_cash) 0 +
      sum_list (map net_cny (filter (\<lambda>e. account_id e = Some (acct_id demo_cash)) (entries demo_store))))
      = 1060"
    by code_simp
  have nm: "acct_id demo_cash = 1 \<and> name demo_cash = ''cash'' \<and>
      acct_id demo_bank = 2 \<and> name demo_bank = ''bank''"
    by (simp add: demo_cash_def demo_bank_def)
  from accounts_view_spec [OF c1 c2, of 0]
  obtain r1 where r1: "r1 \<in> set (accounts_view 1 (accounts demo_store) (entries demo_store))"
    "info_id r1 = acct_id demo_cash" "info_name r1 = name demo_cash"
    "refs_owned demo_store \<longrightarrow>
       current_balance r1 =
         round2 (py_or (initial_balance demo_cash) 0 +
           sum_list (map net_cny
             (filter (\<lambda>e. account_id e = Some (acct_id demo_cash)) (entries demo_store))))"
    by blast
  from r1 inv total nm
  have "r1 \<in> set (accounts_view 1 (accounts demo_store) (entries demo_store)) \<and>
      info_id r1 = 1 \<and> info_name r1 = ''cash'' \<and> current_balance r1 = 1060"
    by simp
  then have cash: "\<exists>row. row \<in> set (accounts_view 1 (accounts demo_store) (entries demo_store)) \<and>
      info_id row = 1 \<and> info_name row = ''cash'' \<and> current_balance row = 1060" ..
  from accounts_view_spec [OF b1 b2, of 50]
  obtain r2 where r2: "r2 \<in> set (accounts_view 1 (accounts demo_store) (entries demo_store))"
    "info_id r2 = acct_id demo_bank" "info_name r2 = name demo_bank"
    "filter (\<lambda>e. account_id e = Some (acct_id demo_bank) \<and> user_id e = 1) (entries demo_store) = [] \<longrightarrow>
       current_balance r2 = round2 (py_or (initial_balance demo_bank) 0) \<and>
       current_balance r2 = info_initial_balance r2 \<and>
       (initial_balance demo_bank = Some (of_int 50 / 100) \<longrightarrow>
          current_balance r2 = of_int 50 / 100)"
    by blast
  from r2 none half nm
  have "r2 \<in> set (accounts_view 1 (accounts demo_store) (entries demo_store)) \<and>
      info_id r2 = 2 \<and> info_name r2 = ''bank'' \<and> current_balance r2 = 0.5 \<and>
      info_initial_balance r2 = 0.5"
    by simp
  then have bank: "\<exists>row. row \<in> set (accounts_view 1 (accounts demo_store) (entries demo_store)) \<and>
      info_id row = 2 \<and> info_name row = ''bank'' \<and> current_balance row = 0.5 \<and>
      info_initial_balance row = 0.5" ..
  from inv c1 c2 cash b1 b2 none half bank show ?thesis
    by (simp only: simp_thms)
qed

theorem zero_entry_balance_counterexample:
  "map current_balance (accounts_view 1
      [\<lparr>acct_id = 1, acct_user_id = 1, name = ''cash'', initial_balance = Some 0.001\<rparr>] []) = [0] \<and>
   map current_balance (accounts_view 1
      [\<lparr>acct_id = 1, acct_user_id = 1, name = ''cash'', initial_balance = Some 0.001\<rparr>] []) \<noteq> [0.001]"
proof -
  have "map current_balance (accounts_view 1
      [\<lparr>acct_id = 1, acct_user_id = 1, name = ''cash'', initial_balance = Some 0.001\<rparr>] []) = [0]"
    by code_simp
  then show ?thesis by simp
qed

end
